theory Spec2Isabelle
  imports Main "HOL-Library.AList" "HOL-Library.Word"
begin

section \<open>Values, errors and the environment\<close>

text \<open>
  A \<^verbatim>\<open>UUID\<close> is a 128-bit number. A \<^verbatim>\<open>datetime\<close> is counted in microseconds, the
  resolution of \<^verbatim>\<open>datetime.utcnow()\<close>.
\<close>

type_synonym uuid = "128 word"
type_synonym datetime = int

text \<open>
  The exceptions the handlers can raise. \<open>HTTPException\<close> carries its status code
  (400 is the spec's Conflict, 404 its NotFound). \<open>ValidationError\<close> is pydantic's, raised
  by a model constructor that runs inside a handler. \<open>AttributeError\<close> is Python's, for a
  field the object does not have. \<open>RequestValidationError\<close> is the framework's answer
  (status 422) to a body that does not validate against the model the route declares; it
  is produced before the handler is called.
\<close>

datatype error = HTTPException nat | ValidationError | AttributeError | RequestValidationError

text \<open>
  A keyword argument, a key of a dumped model, or a field of a JSON body: the key is
  missing, or it is there with the value \<^verbatim>\<open>None\<close>/\<^verbatim>\<open>null\<close>, or it is there with a value.
\<close>

datatype 'a arg = Missing | PyNone | Val 'a

text \<open>
  \<^verbatim>\<open>stored.update(patch)\<close> on one key: a key of the patch replaces the stored one, a key
  the patch does not have leaves it.
\<close>

definition dict_update :: "'a arg \<Rightarrow> 'a arg \<Rightarrow> 'a arg" where
  "dict_update stored new = (case new of Missing \<Rightarrow> stored | PyNone \<Rightarrow> PyNone | Val v \<Rightarrow> Val v)"

definition arg_of_option :: "'a option \<Rightarrow> 'a arg" where
  "arg_of_option v = (case v of None \<Rightarrow> PyNone | Some x \<Rightarrow> Val x)"

text \<open>
  The clock: \<open>clk n\<close> is what the \<open>n\<close>-th call of \<^verbatim>\<open>datetime.utcnow()\<close> of this run
  returns. The state counts the calls made so far in \<open>ticks\<close>.
\<close>

type_synonym clock = "nat \<Rightarrow> datetime"

section \<open>models/desk.py\<close>

text \<open>\<^verbatim>\<open>DeskConfig = Annotated[str, StringConstraints(pattern=r"^(Left|Right)$")]\<close>\<close>

definition DeskConfig :: "string \<Rightarrow> bool" where
  "DeskConfig v \<longleftrightarrow> v = ''Left'' \<or> v = ''Right''"

record DeskBase =
  d_id :: uuid
  d_label :: string
  d_hand_config :: string

text \<open>\<^verbatim>\<open>DeskCreate(DeskBase)\<close> adds no field.\<close>

type_synonym DeskCreate = DeskBase

text \<open>
  \<^verbatim>\<open>DeskUpdate\<close>: both fields are \<^verbatim>\<open>Optional[str]\<close> with default \<^verbatim>\<open>None\<close>; the model
  remembers which were given (\<^verbatim>\<open>exclude_unset\<close> dumps only those). \<open>Missing\<close> is a field
  that was not set. Neither field carries the \<open>DeskConfig\<close> pattern.
\<close>

record DeskUpdate =
  u_label :: "string arg"
  u_hand_config :: "string arg"

record DeskRead = DeskBase +
  d_created_at :: datetime
  d_updated_at :: datetime

text \<open>Field validators: a required \<^verbatim>\<open>str\<close>, and a required \<^verbatim>\<open>DeskConfig\<close>.\<close>

definition required_str :: "string arg \<Rightarrow> error + string" where
  "required_str a = (case a of Val v \<Rightarrow> Inr v | Missing \<Rightarrow> Inl ValidationError | PyNone \<Rightarrow> Inl ValidationError)"

definition required_DeskConfig :: "string arg \<Rightarrow> error + string" where
  "required_DeskConfig a =
     (case a of
        Val v \<Rightarrow> if DeskConfig v then Inr v else Inl ValidationError
      | Missing \<Rightarrow> Inl ValidationError
      | PyNone \<Rightarrow> Inl ValidationError)"

text \<open>
  \<^verbatim>\<open>DeskBase(id=..., label=..., hand_config=...)\<close> and so \<^verbatim>\<open>DeskCreate(...)\<close>, with the
  \<^verbatim>\<open>id\<close> given. Keys the model does not declare are ignored (pydantic's default).
\<close>

definition DeskBase_init :: "uuid \<Rightarrow> string arg \<Rightarrow> string arg \<Rightarrow> error + DeskBase" where
  "DeskBase_init i label hand_config =
     (case required_str label of
        Inl e \<Rightarrow> Inl e
      | Inr l \<Rightarrow>
          (case required_DeskConfig hand_config of
             Inl e \<Rightarrow> Inl e
           | Inr h \<Rightarrow> Inr \<lparr>d_id = i, d_label = l, d_hand_config = h\<rparr>))"

text \<open>\<^verbatim>\<open>DeskRead(id=..., label=..., hand_config=..., created_at=..., updated_at=...)\<close>\<close>

definition DeskRead_init ::
  "uuid \<Rightarrow> string arg \<Rightarrow> string arg \<Rightarrow> datetime \<Rightarrow> datetime \<Rightarrow> error + DeskRead" where
  "DeskRead_init i label hand_config created updated =
     (case required_str label of
        Inl e \<Rightarrow> Inl e
      | Inr l \<Rightarrow>
          (case required_DeskConfig hand_config of
             Inl e \<Rightarrow> Inl e
           | Inr h \<Rightarrow>
               Inr \<lparr>d_id = i, d_label = l, d_hand_config = h,
                    d_created_at = created, d_updated_at = updated\<rparr>))"

section \<open>models/classroom.py\<close>

record ClassroomBase =
  c_id :: uuid
  c_room_no :: string
  c_building :: string
  c_university :: "string option"
  c_desks :: "DeskBase list"

type_synonym ClassroomCreate = ClassroomBase

record ClassroomUpdate =
  u_room_no :: "string arg"
  u_building :: "string arg"
  u_university :: "string arg"
  u_desks :: "DeskBase list arg"

record ClassroomRead = ClassroomBase +
  c_created_at :: datetime
  c_updated_at :: datetime

text \<open>\<^verbatim>\<open>Optional[str] = None\<close>: every argument is accepted.\<close>

definition optional_str :: "string arg \<Rightarrow> string option" where
  "optional_str a = (case a of Val v \<Rightarrow> Some v | Missing \<Rightarrow> None | PyNone \<Rightarrow> None)"

text \<open>
  \<^verbatim>\<open>List[DeskBase]\<close> with \<^verbatim>\<open>default_factory=list\<close>: each dumped desk is validated as a
  \<open>DeskBase\<close> again.
\<close>

fun DeskBase_list :: "DeskBase list \<Rightarrow> error + DeskBase list" where
  "DeskBase_list [] = Inr []"
| "DeskBase_list (d # ds) =
     (case DeskBase_init (d_id d) (Val (d_label d)) (Val (d_hand_config d)) of
        Inl e \<Rightarrow> Inl e
      | Inr d' \<Rightarrow>
          (case DeskBase_list ds of
             Inl e \<Rightarrow> Inl e
           | Inr ds' \<Rightarrow> Inr (d' # ds')))"

definition desks_field :: "DeskBase list arg \<Rightarrow> error + DeskBase list" where
  "desks_field a =
     (case a of
        Val ds \<Rightarrow> DeskBase_list ds
      | Missing \<Rightarrow> Inr []
      | PyNone \<Rightarrow> Inl ValidationError)"

definition ClassroomRead_init ::
  "uuid \<Rightarrow> string arg \<Rightarrow> string arg \<Rightarrow> string arg \<Rightarrow> DeskBase list arg \<Rightarrow>
   datetime \<Rightarrow> datetime \<Rightarrow> error + ClassroomRead" where
  "ClassroomRead_init i room_no building university ds created updated =
     (case required_str room_no of
        Inl e \<Rightarrow> Inl e
      | Inr r \<Rightarrow>
          (case required_str building of
             Inl e \<Rightarrow> Inl e
           | Inr b \<Rightarrow>
               (case desks_field ds of
                  Inl e \<Rightarrow> Inl e
                | Inr ds' \<Rightarrow>
                    Inr \<lparr>c_id = i, c_room_no = r, c_building = b,
                         c_university = optional_str university, c_desks = ds',
                         c_created_at = created, c_updated_at = updated\<rparr>)))"

section \<open>main.py: the two stores\<close>

text \<open>
  The module-level dicts \<^verbatim>\<open>classrooms\<close> and \<^verbatim>\<open>desks\<close>. A Python dict keeps insertion
  order: assigning to a new key appends, assigning to a key that is there replaces the
  value in place, which is what \<open>AList.update\<close> does; \<open>map_of\<close> is the lookup.

  A handler returns \<open>Inl e\<close> when it raises \<open>e\<close>. Every \<^verbatim>\<open>raise\<close> of main.py and every
  constructor that can fail comes before the handler's only assignment to a dict, so a
  handler that raises leaves both dicts as they were: \<open>Inl\<close> carries no new state.
\<close>

record state =
  classrooms :: "(uuid \<times> ClassroomRead) list"
  desks :: "(uuid \<times> DeskRead) list"
  ticks :: nat

definition utcnow :: "clock \<Rightarrow> state \<Rightarrow> datetime \<times> state" where
  "utcnow clk s = (clk (ticks s), s\<lparr>ticks := Suc (ticks s)\<rparr>)"

definition init :: state where
  "init = \<lparr>classrooms = [], desks = [], ticks = 0\<rparr>"

subsection \<open>Desk endpoints\<close>

text \<open>
  \<^verbatim>\<open>DeskRead(**desk.model_dump())\<close>: the dump has \<^verbatim>\<open>id\<close>, \<^verbatim>\<open>label\<close> and \<^verbatim>\<open>hand_config\<close>;
  \<^verbatim>\<open>created_at\<close> and \<^verbatim>\<open>updated_at\<close> are missing, so each calls its own
  \<^verbatim>\<open>default_factory=datetime.utcnow\<close>, in the order of the fields.
\<close>

definition create_desk :: "clock \<Rightarrow> DeskCreate \<Rightarrow> state \<Rightarrow> error + (DeskRead \<times> state)" where
  "create_desk clk desk s =
     (if map_of (desks s) (d_id desk) \<noteq> None then Inl (HTTPException 400)
      else
        (let (created, s1) = utcnow clk s;
             (updated, s2) = utcnow clk s1
         in case DeskRead_init (d_id desk) (Val (d_label desk)) (Val (d_hand_config desk))
                   created updated of
              Inl e \<Rightarrow> Inl e
            | Inr r \<Rightarrow> Inr (r, s2\<lparr>desks := AList.update (d_id desk) r (desks s2)\<rparr>)))"

definition list_desks :: "string option \<Rightarrow> string option \<Rightarrow> state \<Rightarrow> DeskRead list" where
  "list_desks label hand_config s =
     (let results = map snd (desks s);
          results = (case label of
                       None \<Rightarrow> results
                     | Some l \<Rightarrow> filter (\<lambda>a. d_label a = l) results);
          results = (case hand_config of
                       None \<Rightarrow> results
                     | Some h \<Rightarrow> filter (\<lambda>a. d_hand_config a = h) results)
      in results)"

definition get_desk :: "uuid \<Rightarrow> state \<Rightarrow> error + DeskRead" where
  "get_desk desk_id s =
     (case map_of (desks s) desk_id of
        None \<Rightarrow> Inl (HTTPException 404)
      | Some r \<Rightarrow> Inr r)"

text \<open>
  \<^verbatim>\<open>stored = desks[desk_id].model_dump()\<close> has all five keys, \<^verbatim>\<open>updated_at\<close> among them;
  the patch can only bring \<^verbatim>\<open>label\<close> and \<^verbatim>\<open>hand_config\<close>. \<^verbatim>\<open>DeskRead(**stored)\<close> finds
  both timestamps given and calls no default factory: the clock is not read.
\<close>

definition update_desk :: "uuid \<Rightarrow> DeskUpdate \<Rightarrow> state \<Rightarrow> error + (DeskRead \<times> state)" where
  "update_desk desk_id update s =
     (case map_of (desks s) desk_id of
        None \<Rightarrow> Inl (HTTPException 404)
      | Some stored \<Rightarrow>
          (case DeskRead_init (d_id stored)
                  (dict_update (Val (d_label stored)) (u_label update))
                  (dict_update (Val (d_hand_config stored)) (u_hand_config update))
                  (d_created_at stored) (d_updated_at stored) of
             Inl e \<Rightarrow> Inl e
           | Inr r \<Rightarrow> Inr (r, s\<lparr>desks := AList.update desk_id r (desks s)\<rparr>)))"

definition replace_desk :: "clock \<Rightarrow> uuid \<Rightarrow> DeskCreate \<Rightarrow> state \<Rightarrow> error + (DeskRead \<times> state)" where
  "replace_desk clk desk_id desk s =
     (case map_of (desks s) desk_id of
        None \<Rightarrow>
          (case DeskBase_init desk_id (Val (d_label desk)) (Val (d_hand_config desk)) of
             Inl e \<Rightarrow> Inl e
           | Inr new_desk \<Rightarrow> create_desk clk new_desk s)
      | Some stored \<Rightarrow>
          (let (now, s1) = utcnow clk s
           in case DeskRead_init desk_id (Val (d_label desk)) (Val (d_hand_config desk))
                     (d_created_at stored) now of
                Inl e \<Rightarrow> Inl e
              | Inr new_desk \<Rightarrow>
                  Inr (new_desk, s1\<lparr>desks := AList.update desk_id new_desk (desks s1)\<rparr>)))"

definition delete_desk :: "uuid \<Rightarrow> state \<Rightarrow> error + state" where
  "delete_desk desk_id s =
     (if map_of (desks s) desk_id = None then Inl (HTTPException 404)
      else Inr (s\<lparr>desks := AList.delete desk_id (desks s)\<rparr>))"

subsection \<open>Classroom endpoints\<close>

text \<open>
  \<^verbatim>\<open>ClassroomRead(**classroom.model_dump())\<close> reads the clock twice, as \<open>create_desk\<close>
  does. There is no membership test: the record is assigned to its key whether or not the
  key is there.
\<close>

definition create_classroom ::
  "clock \<Rightarrow> ClassroomCreate \<Rightarrow> state \<Rightarrow> error + (ClassroomRead \<times> state)" where
  "create_classroom clk classroom s =
     (let (created, s1) = utcnow clk s;
          (updated, s2) = utcnow clk s1
      in case ClassroomRead_init (c_id classroom) (Val (c_room_no classroom))
                (Val (c_building classroom)) (arg_of_option (c_university classroom))
                (Val (c_desks classroom)) created updated of
           Inl e \<Rightarrow> Inl e
         | Inr classroom_read \<Rightarrow>
             Inr (classroom_read,
                  s2\<lparr>classrooms :=
                       AList.update (c_id classroom_read) classroom_read (classrooms s2)\<rparr>))"

text \<open>
  A list comprehension \<^verbatim>\<open>[p for p in results if cond(p)]\<close> whose condition can raise:
  the first element whose condition raises ends it.
\<close>

fun comprehension :: "('a \<Rightarrow> error + bool) \<Rightarrow> 'a list \<Rightarrow> error + 'a list" where
  "comprehension cond [] = Inr []"
| "comprehension cond (p # ps) =
     (case cond p of
        Inl e \<Rightarrow> Inl e
      | Inr b \<Rightarrow>
          (case comprehension cond ps of
             Inl e \<Rightarrow> Inl e
           | Inr qs \<Rightarrow> Inr (if b then p # qs else qs)))"

text \<open>\<^verbatim>\<open>if v is not None: results = [p for p in results if cond(v, p)]\<close>\<close>

definition filter_by ::
  "'v option \<Rightarrow> ('v \<Rightarrow> 'a \<Rightarrow> error + bool) \<Rightarrow> 'a list \<Rightarrow> error + 'a list" where
  "filter_by v cond results =
     (case v of
        None \<Rightarrow> Inr results
      | Some x \<Rightarrow> comprehension (cond x) results)"

text \<open>
  A \<open>DeskRead\<close> has the fields \<^verbatim>\<open>id\<close>, \<^verbatim>\<open>label\<close>, \<^verbatim>\<open>hand_config\<close>, \<^verbatim>\<open>created_at\<close> and
  \<^verbatim>\<open>updated_at\<close>. Reading \<^verbatim>\<open>room_no\<close>, \<^verbatim>\<open>building\<close>, \<^verbatim>\<open>university\<close> or \<^verbatim>\<open>desks\<close> of one
  raises \<open>AttributeError\<close>.
\<close>

definition DeskRead_room_no :: "DeskRead \<Rightarrow> error + string" where
  "DeskRead_room_no p = Inl AttributeError"

definition DeskRead_building :: "DeskRead \<Rightarrow> error + string" where
  "DeskRead_building p = Inl AttributeError"

definition DeskRead_university :: "DeskRead \<Rightarrow> error + string option" where
  "DeskRead_university p = Inl AttributeError"

definition DeskRead_desks :: "DeskRead \<Rightarrow> error + DeskBase list" where
  "DeskRead_desks p = Inl AttributeError"

text \<open>
  \<^verbatim>\<open>results = list(desks.values())\<close>: the handler starts from the values of the dict
  \<^verbatim>\<open>desks\<close>, so what it filters and returns are \<open>DeskRead\<close> objects.
\<close>

definition list_classrooms ::
  "string option \<Rightarrow> string option \<Rightarrow> string option \<Rightarrow> string option \<Rightarrow> string option \<Rightarrow>
   state \<Rightarrow> error + DeskRead list" where
  "list_classrooms room_no building university label hand_config s =
     (case filter_by room_no
             (\<lambda>v p. case DeskRead_room_no p of Inl e \<Rightarrow> Inl e | Inr x \<Rightarrow> Inr (x = v))
             (map snd (desks s)) of
        Inl e \<Rightarrow> Inl e
      | Inr results \<Rightarrow>
     (case filter_by building
             (\<lambda>v p. case DeskRead_building p of Inl e \<Rightarrow> Inl e | Inr x \<Rightarrow> Inr (x = v))
             results of
        Inl e \<Rightarrow> Inl e
      | Inr results \<Rightarrow>
     (case filter_by university
             (\<lambda>v p. case DeskRead_university p of Inl e \<Rightarrow> Inl e | Inr x \<Rightarrow> Inr (x = Some v))
             results of
        Inl e \<Rightarrow> Inl e
      | Inr results \<Rightarrow>
     (case filter_by label
             (\<lambda>v p. case DeskRead_desks p of
                       Inl e \<Rightarrow> Inl e
                     | Inr ds \<Rightarrow> Inr (list_ex (\<lambda>desk. d_label desk = v) ds))
             results of
        Inl e \<Rightarrow> Inl e
      | Inr results \<Rightarrow>
          filter_by hand_config
             (\<lambda>v p. case DeskRead_desks p of
                       Inl e \<Rightarrow> Inl e
                     | Inr ds \<Rightarrow> Inr (list_ex (\<lambda>desk. d_hand_config desk = v) ds))
             results))))"

definition get_classrooom :: "uuid \<Rightarrow> state \<Rightarrow> error + ClassroomRead" where
  "get_classrooom classroom_id s =
     (case map_of (classrooms s) classroom_id of
        None \<Rightarrow> Inl (HTTPException 404)
      | Some r \<Rightarrow> Inr r)"

definition update_classroom ::
  "uuid \<Rightarrow> ClassroomUpdate \<Rightarrow> state \<Rightarrow> error + (ClassroomRead \<times> state)" where
  "update_classroom classroom_id update s =
     (case map_of (classrooms s) classroom_id of
        None \<Rightarrow> Inl (HTTPException 404)
      | Some stored \<Rightarrow>
          (case ClassroomRead_init (c_id stored)
                  (dict_update (Val (c_room_no stored)) (u_room_no update))
                  (dict_update (Val (c_building stored)) (u_building update))
                  (dict_update (arg_of_option (c_university stored)) (u_university update))
                  (dict_update (Val (c_desks stored)) (u_desks update))
                  (c_created_at stored) (c_updated_at stored) of
             Inl e \<Rightarrow> Inl e
           | Inr r \<Rightarrow> Inr (r, s\<lparr>classrooms := AList.update classroom_id r (classrooms s)\<rparr>)))"

text \<open>
  What a handler of the classroom routes can return: \<open>replace_classroom\<close> returns the
  result of \<open>create_desk\<close> on one path and a \<open>ClassroomRead\<close> on the other.
\<close>

datatype resource = Desk DeskRead | Classroom ClassroomRead

text \<open>
  On a missing id: \<^verbatim>\<open>new_classroom_data\<close> is the dump of the classroom with its \<^verbatim>\<open>id\<close>
  set to the path id, and the handler returns \<^verbatim>\<open>create_desk(DeskCreate(**new_classroom_data))\<close>.
  The dump has the keys \<^verbatim>\<open>id\<close>, \<^verbatim>\<open>room_no\<close>, \<^verbatim>\<open>building\<close>, \<^verbatim>\<open>university\<close> and \<^verbatim>\<open>desks\<close>:
  \<open>DeskCreate\<close> ignores the four it does not declare and finds \<^verbatim>\<open>label\<close> and
  \<^verbatim>\<open>hand_config\<close> missing.
\<close>

definition replace_classroom ::
  "clock \<Rightarrow> uuid \<Rightarrow> ClassroomCreate \<Rightarrow> state \<Rightarrow> error + (resource \<times> state)" where
  "replace_classroom clk classroom_id classroom s =
     (case map_of (classrooms s) classroom_id of
        None \<Rightarrow>
          (case DeskBase_init classroom_id Missing Missing of
             Inl e \<Rightarrow> Inl e
           | Inr desk \<Rightarrow>
               (case create_desk clk desk s of
                  Inl e \<Rightarrow> Inl e
                | Inr (r, s') \<Rightarrow> Inr (Desk r, s')))
      | Some stored \<Rightarrow>
          (let (now, s1) = utcnow clk s
           in case ClassroomRead_init classroom_id (Val (c_room_no classroom))
                     (Val (c_building classroom)) (arg_of_option (c_university classroom))
                     (Val (c_desks classroom)) (c_created_at stored) now of
                Inl e \<Rightarrow> Inl e
              | Inr new_classroom \<Rightarrow>
                  Inr (Classroom new_classroom,
                       s1\<lparr>classrooms :=
                            AList.update classroom_id new_classroom (classrooms s1)\<rparr>)))"

definition delete_classroom :: "uuid \<Rightarrow> state \<Rightarrow> error + state" where
  "delete_classroom classroom_id s =
     (if map_of (classrooms s) classroom_id = None then Inl (HTTPException 404)
      else Inr (s\<lparr>classrooms := AList.delete classroom_id (classrooms s)\<rparr>))"

section \<open>The routes of the desk resource\<close>

text \<open>
  A route that declares a body parameter of a model type (\<^verbatim>\<open>desk: DeskCreate\<close>,
  \<^verbatim>\<open>update: DeskUpdate\<close>) has the framework build that model from the JSON body first; when
  the model does not validate, the framework answers 422 and the handler is not called.
  A body is modelled with the three fields the desk models read, each of them missing,
  \<^verbatim>\<open>null\<close> or a value of the field's JSON type.
\<close>

record DeskBody =
  b_id :: "uuid arg"
  b_label :: "string arg"
  b_hand_config :: "string arg"

text \<open>
  \<open>DeskCreate\<close> from a body: a missing \<^verbatim>\<open>id\<close> is drawn by \<^verbatim>\<open>default_factory=uuid4\<close>
  (the draw is the parameter \<open>uuid4\<close>), a \<^verbatim>\<open>null\<close> one is not a UUID.
\<close>

definition DeskCreate_validate :: "uuid \<Rightarrow> DeskBody \<Rightarrow> error + DeskCreate" where
  "DeskCreate_validate uuid4 body =
     (case b_id body of
        Missing \<Rightarrow> DeskBase_init uuid4 (b_label body) (b_hand_config body)
      | PyNone \<Rightarrow> Inl ValidationError
      | Val i \<Rightarrow> DeskBase_init i (b_label body) (b_hand_config body))"

text \<open>
  \<open>DeskUpdate\<close> from a body: \<^verbatim>\<open>label\<close> and \<^verbatim>\<open>hand_config\<close> are \<^verbatim>\<open>Optional[str]\<close>, so a
  missing field, a \<^verbatim>\<open>null\<close> and any string are all accepted; \<^verbatim>\<open>id\<close> is not declared and
  is ignored.
\<close>

definition DeskUpdate_validate :: "DeskBody \<Rightarrow> error + DeskUpdate" where
  "DeskUpdate_validate body = Inr \<lparr>u_label = b_label body, u_hand_config = b_hand_config body\<rparr>"

definition POST_desks ::
  "uuid \<Rightarrow> clock \<Rightarrow> DeskBody \<Rightarrow> state \<Rightarrow> error + (DeskRead \<times> state)" where
  "POST_desks uuid4 clk body s =
     (case DeskCreate_validate uuid4 body of
        Inl e \<Rightarrow> Inl RequestValidationError
      | Inr desk \<Rightarrow> create_desk clk desk s)"

definition PATCH_desks :: "uuid \<Rightarrow> DeskBody \<Rightarrow> state \<Rightarrow> error + (DeskRead \<times> state)" where
  "PATCH_desks desk_id body s =
     (case DeskUpdate_validate body of
        Inl e \<Rightarrow> Inl RequestValidationError
      | Inr update \<Rightarrow> update_desk desk_id update s)"

definition PUT_desks ::
  "uuid \<Rightarrow> clock \<Rightarrow> uuid \<Rightarrow> DeskBody \<Rightarrow> state \<Rightarrow> error + (DeskRead \<times> state)" where
  "PUT_desks uuid4 clk desk_id body s =
     (case DeskCreate_validate uuid4 body of
        Inl e \<Rightarrow> Inl RequestValidationError
      | Inr desk \<Rightarrow> replace_desk clk desk_id desk s)"

section \<open>Histories of requests\<close>

text \<open>
  The requests that can change a store, and the state after serving one: a request whose
  handler raises leaves the state as it was.
\<close>

datatype request =
    CreateDesk DeskCreate
  | UpdateDesk uuid DeskUpdate
  | ReplaceDesk uuid DeskCreate
  | DeleteDesk uuid
  | CreateClassroom ClassroomCreate
  | UpdateClassroom uuid ClassroomUpdate
  | ReplaceClassroom uuid ClassroomCreate
  | DeleteClassroom uuid

definition after :: "state \<Rightarrow> error + ('a \<times> state) \<Rightarrow> state" where
  "after s res = (case res of Inl e \<Rightarrow> s | Inr (r, s') \<Rightarrow> s')"

fun serve :: "clock \<Rightarrow> request \<Rightarrow> state \<Rightarrow> state" where
  "serve clk (CreateDesk desk) s = after s (create_desk clk desk s)"
| "serve clk (UpdateDesk desk_id update) s = after s (update_desk desk_id update s)"
| "serve clk (ReplaceDesk desk_id desk) s = after s (replace_desk clk desk_id desk s)"
| "serve clk (DeleteDesk desk_id) s =
     (case delete_desk desk_id s of Inl e \<Rightarrow> s | Inr s' \<Rightarrow> s')"
| "serve clk (CreateClassroom classroom) s = after s (create_classroom clk classroom s)"
| "serve clk (UpdateClassroom classroom_id update) s =
     after s (update_classroom classroom_id update s)"
| "serve clk (ReplaceClassroom classroom_id classroom) s =
     after s (replace_classroom clk classroom_id classroom s)"
| "serve clk (DeleteClassroom classroom_id) s =
     (case delete_classroom classroom_id s of Inl e \<Rightarrow> s | Inr s' \<Rightarrow> s')"

fun serve_all :: "clock \<Rightarrow> request list \<Rightarrow> state \<Rightarrow> state" where
  "serve_all clk [] s = s"
| "serve_all clk (r # rs) s = serve_all clk rs (serve clk r s)"

text \<open>
  A history of desk creations that all succeed: the records the calls returned, in the
  order of the calls, and the state after the last one.
\<close>

fun create_desks :: "clock \<Rightarrow> DeskCreate list \<Rightarrow> state \<Rightarrow> error + (DeskRead list \<times> state)" where
  "create_desks clk [] s = Inr ([], s)"
| "create_desks clk (desk # rest) s =
     (case create_desk clk desk s of
        Inl e \<Rightarrow> Inl e
      | Inr (r, s1) \<Rightarrow>
          (case create_desks clk rest s1 of
             Inl e \<Rightarrow> Inl e
           | Inr (rs, s2) \<Rightarrow> Inr (r # rs, s2)))"

text \<open>The clock is monotone when a later call never returns an earlier time.\<close>

definition monotone_clock :: "clock \<Rightarrow> bool" where
  "monotone_clock clk \<longleftrightarrow> (\<forall>i j. i \<le> j \<longrightarrow> clk i \<le> clk j)"

section \<open>Example data\<close>

definition tick10 :: clock where
  "tick10 n = 10 * int n"

text \<open>A wall clock that is set back once, after its second reading.\<close>

definition set_back :: clock where
  "set_back n = (if n < 2 then 100 else 50 + int n)"

definition desk_12H :: DeskRead where
  "desk_12H = \<lparr>d_id = 1, d_label = ''12H'', d_hand_config = ''Right'',
               d_created_at = 0, d_updated_at = 10\<rparr>"

definition room_502 :: ClassroomRead where
  "room_502 = \<lparr>c_id = 7, c_room_no = ''502'', c_building = ''NWC'',
               c_university = Some ''Columbia'',
               c_desks = [\<lparr>d_id = 1, d_label = ''12H'', d_hand_config = ''Right''\<rparr>],
               c_created_at = 0, c_updated_at = 10\<rparr>"

definition one_desk :: state where
  "one_desk = \<lparr>classrooms = [], desks = [(1, desk_12H)], ticks = 2\<rparr>"

definition one_room :: state where
  "one_room = \<lparr>classrooms = [(7, room_502)], desks = [], ticks = 2\<rparr>"

definition room_and_desk :: state where
  "room_and_desk = \<lparr>classrooms = [(7, room_502)], desks = [(1, desk_12H)], ticks = 4\<rparr>"

definition new_12H :: DeskCreate where
  "new_12H = \<lparr>d_id = 1, d_label = ''12H'', d_hand_config = ''Right''\<rparr>"

definition new_4A :: DeskCreate where
  "new_4A = \<lparr>d_id = 2, d_label = ''4A'', d_hand_config = ''Left''\<rparr>"

definition new_502 :: ClassroomCreate where
  "new_502 = \<lparr>c_id = 7, c_room_no = ''502'', c_building = ''NWC'',
              c_university = Some ''Columbia'',
              c_desks = [\<lparr>d_id = 1, d_label = ''12H'', d_hand_config = ''Right''\<rparr>]\<rparr>"

definition history :: "request list" where
  "history = [CreateDesk new_12H, ReplaceDesk 1 new_4A, CreateClassroom new_502,
              UpdateClassroom 7 \<lparr>u_room_no = Val ''503'', u_building = Missing,
                                  u_university = PyNone, u_desks = Missing\<rparr>]"

definition empty_patch :: DeskUpdate where
  "empty_patch = \<lparr>u_label = Missing, u_hand_config = Missing\<rparr>"

definition empty_classroom_patch :: ClassroomUpdate where
  "empty_classroom_patch = \<lparr>u_room_no = Missing, u_building = Missing,
                            u_university = Missing, u_desks = Missing\<rparr>"

definition body_Up :: DeskBody where
  "body_Up = \<lparr>b_id = Missing, b_label = Missing, b_hand_config = Val ''Up''\<rparr>"

section \<open>Invariants of the stores\<close>

text \<open>Every stored record was updated no earlier than it was created.\<close>

definition timestamps_ordered :: "state \<Rightarrow> bool" where
  "timestamps_ordered s \<longleftrightarrow>
     list_all (\<lambda>(k, r). d_created_at r \<le> d_updated_at r) (desks s) \<and>
     list_all (\<lambda>(k, r). c_created_at r \<le> c_updated_at r) (classrooms s)"

text \<open>
  The invariant that carries it through a history: moreover no record was created later
  than the time \<open>t\<close>, which is the next reading of the clock.
\<close>

definition desk_stamped :: "datetime \<Rightarrow> uuid \<times> DeskRead \<Rightarrow> bool" where
  "desk_stamped t = (\<lambda>(k, r). d_created_at r \<le> d_updated_at r \<and> d_created_at r \<le> t)"

definition classroom_stamped :: "datetime \<Rightarrow> uuid \<times> ClassroomRead \<Rightarrow> bool" where
  "classroom_stamped t = (\<lambda>(k, r). c_created_at r \<le> c_updated_at r \<and> c_created_at r \<le> t)"

definition stamped :: "clock \<Rightarrow> state \<Rightarrow> bool" where
  "stamped clk s \<longleftrightarrow>
     list_all (desk_stamped (clk (ticks s))) (desks s) \<and>
     list_all (classroom_stamped (clk (ticks s))) (classrooms s)"

section \<open>Facts about dicts and constructors\<close>

lemmas model_defs = DeskRead_init_def DeskBase_init_def ClassroomRead_init_def required_str_def
  required_DeskConfig_def optional_str_def desks_field_def dict_update_def arg_of_option_def
  utcnow_def

lemmas example_defs = tick10_def desk_12H_def room_502_def one_desk_def one_room_def
  room_and_desk_def init_def new_12H_def new_4A_def new_502_def empty_patch_def
  empty_classroom_patch_def body_Up_def

lemmas filter_defs = list_classrooms_def filter_by_def DeskRead_room_no_def
  DeskRead_building_def DeskRead_university_def DeskRead_desks_def

text \<open>Assigning to a key the dict does not have appends the item.\<close>

lemma update_absent: "map_of al k = None \<Longrightarrow> AList.update k v al = al @ [(k, v)]"
  by (induction al) (auto split: if_splits)

lemma DeskBase_list_valid:
  "list_all (\<lambda>d. DeskConfig (d_hand_config d)) ds \<Longrightarrow> DeskBase_list ds = Inr ds"
  by (induction ds) (simp_all add: model_defs)

section \<open>Desk ReplaceOrCreate\<close>

lemma create_desk_absent:
  assumes "DeskConfig (d_hand_config desk)" and "map_of (desks s) (d_id desk) = None"
  shows "create_desk clk desk s =
     Inr (\<lparr>d_id = d_id desk, d_label = d_label desk, d_hand_config = d_hand_config desk,
           d_created_at = clk (ticks s), d_updated_at = clk (Suc (ticks s))\<rparr>,
          s\<lparr>desks := desks s @ [(d_id desk,
                \<lparr>d_id = d_id desk, d_label = d_label desk, d_hand_config = d_hand_config desk,
                 d_created_at = clk (ticks s), d_updated_at = clk (Suc (ticks s))\<rparr>)],
            ticks := Suc (Suc (ticks s))\<rparr>)"
  using assms by (simp add: create_desk_def model_defs update_absent)

text \<open>
  Claim C7. For the Desk Store, \<open>replace_desk\<close> with a body that passed validation: when
  the path id is absent it creates a record whose id is the path id (the id of the body is
  not used) with the label and hand_config of the body, appended to the store; when the
  path id is present it replaces label and hand_config with those of the body, keeps the
  stored created_at, sets updated_at to the reading of the clock, and stores the record
  under the path id. In both cases the record it returns is the one it stored.
\<close>

theorem replace_desk_correct:
  assumes "DeskConfig (d_hand_config desk)"
  shows "replace_desk clk desk_id desk s =
     (case map_of (desks s) desk_id of
        None \<Rightarrow>
          (let new_desk = \<lparr>d_id = desk_id, d_label = d_label desk,
                           d_hand_config = d_hand_config desk,
                           d_created_at = clk (ticks s), d_updated_at = clk (Suc (ticks s))\<rparr>
           in Inr (new_desk, s\<lparr>desks := desks s @ [(desk_id, new_desk)],
                               ticks := Suc (Suc (ticks s))\<rparr>))
      | Some stored \<Rightarrow>
          (let new_desk = \<lparr>d_id = desk_id, d_label = d_label desk,
                           d_hand_config = d_hand_config desk,
                           d_created_at = d_created_at stored, d_updated_at = clk (ticks s)\<rparr>
           in Inr (new_desk, s\<lparr>desks := AList.update desk_id new_desk (desks s),
                               ticks := Suc (ticks s)\<rparr>)))"
proof (cases "map_of (desks s) desk_id")
  case None
  then show ?thesis
    using assms
    by (simp add: replace_desk_def DeskBase_init_def required_str_def required_DeskConfig_def
        create_desk_absent Let_def)
next
  case (Some stored)
  then show ?thesis
    using assms by (simp add: replace_desk_def model_defs Let_def)
qed

theorem replace_desk_correct_witness:
  "DeskConfig ''Left'' \<and>
   replace_desk tick10 1 \<lparr>d_id = 99, d_label = ''4A'', d_hand_config = ''Left''\<rparr> one_desk =
     Inr (\<lparr>d_id = 1, d_label = ''4A'', d_hand_config = ''Left'',
           d_created_at = 0, d_updated_at = 20\<rparr>,
          \<lparr>classrooms = [],
           desks = [(1, \<lparr>d_id = 1, d_label = ''4A'', d_hand_config = ''Left'',
                         d_created_at = 0, d_updated_at = 20\<rparr>)],
           ticks = 3\<rparr>) \<and>
   replace_desk tick10 2 \<lparr>d_id = 99, d_label = ''4A'', d_hand_config = ''Left''\<rparr> one_desk =
     Inr (\<lparr>d_id = 2, d_label = ''4A'', d_hand_config = ''Left'',
           d_created_at = 20, d_updated_at = 30\<rparr>,
          \<lparr>classrooms = [],
           desks = [(1, desk_12H),
                    (2, \<lparr>d_id = 2, d_label = ''4A'', d_hand_config = ''Left'',
                         d_created_at = 20, d_updated_at = 30\<rparr>)],
           ticks = 4\<rparr>)"
  using replace_desk_correct [of "\<lparr>d_id = 99, d_label = ''4A'', d_hand_config = ''Left''\<rparr>" tick10 1 one_desk]
    replace_desk_correct [of "\<lparr>d_id = 99, d_label = ''4A'', d_hand_config = ''Left''\<rparr>" tick10 2 one_desk]
  by (simp add: DeskConfig_def example_defs Let_def)

section \<open>Timestamps along a history\<close>

lemma list_all_update:
  "list_all P al \<Longrightarrow> P (k, v) \<Longrightarrow> list_all P (AList.update k v al)"
  by (induction al) auto

lemma list_all_delete: "list_all P al \<Longrightarrow> list_all P (AList.delete k al)"
  by (simp add: AList.delete_eq list_all_iff)

lemma list_all_map_of: "list_all P al \<Longrightarrow> map_of al k = Some v \<Longrightarrow> P (k, v)"
  by (auto simp: list_all_iff dest: map_of_SomeD)

lemma desk_stamped_later: "desk_stamped t p \<Longrightarrow> t \<le> t' \<Longrightarrow> desk_stamped t' p"
  by (auto simp: desk_stamped_def)

lemma classroom_stamped_later: "classroom_stamped t p \<Longrightarrow> t \<le> t' \<Longrightarrow> classroom_stamped t' p"
  by (auto simp: classroom_stamped_def)

lemma list_all_desk_later:
  "list_all (desk_stamped t) al \<Longrightarrow> t \<le> t' \<Longrightarrow> list_all (desk_stamped t') al"
  by (auto simp: list_all_iff intro: desk_stamped_later)

lemma list_all_classroom_later:
  "list_all (classroom_stamped t) al \<Longrightarrow> t \<le> t' \<Longrightarrow> list_all (classroom_stamped t') al"
  by (auto simp: list_all_iff intro: classroom_stamped_later)

lemma stamped_later:
  assumes "stamped clk s" "clk (ticks s) \<le> t"
  shows "list_all (desk_stamped t) (desks s)" "list_all (classroom_stamped t) (classrooms s)"
  using assms list_all_desk_later [of "clk (ticks s)" "desks s" t]
    list_all_classroom_later [of "clk (ticks s)" "classrooms s" t]
  by (simp_all add: stamped_def)

lemma monotone_clockD: "monotone_clock clk \<Longrightarrow> i \<le> j \<Longrightarrow> clk i \<le> clk j"
  by (simp add: monotone_clock_def)

lemma DeskRead_init_stamps:
  "DeskRead_init i l h c u = Inr r \<Longrightarrow> d_created_at r = c \<and> d_updated_at r = u"
  by (auto simp: DeskRead_init_def split: sum.splits)

lemma ClassroomRead_init_stamps:
  "ClassroomRead_init i rn b un ds c u = Inr r \<Longrightarrow> c_created_at r = c \<and> c_updated_at r = u"
  by (auto simp: ClassroomRead_init_def split: sum.splits)

lemma create_desk_stamped:
  assumes "monotone_clock clk" "stamped clk s" "create_desk clk desk s = Inr (r, s')"
  shows "stamped clk s'"
proof -
  let ?t = "ticks s"
  from assms(3) have r: "DeskRead_init (d_id desk) (Val (d_label desk)) (Val (d_hand_config desk))
       (clk ?t) (clk (Suc ?t)) = Inr r"
    and s': "s' = s\<lparr>ticks := Suc (Suc ?t), desks := AList.update (d_id desk) r (desks s)\<rparr>"
    by (auto simp: create_desk_def utcnow_def split: if_splits sum.splits)
  have le: "clk ?t \<le> clk (Suc ?t)" "clk ?t \<le> clk (Suc (Suc ?t))"
    using assms(1) by (simp_all add: monotone_clockD)
  have new: "desk_stamped (clk (Suc (Suc ?t))) (d_id desk, r)"
    using DeskRead_init_stamps [OF r] le by (simp add: desk_stamped_def)
  show ?thesis
    using stamped_later [OF assms(2) le(2)] new unfolding stamped_def s'
    by (simp add: list_all_update)
qed

lemma update_desk_stamped:
  assumes "stamped clk s" "update_desk desk_id update s = Inr (r, s')"
  shows "stamped clk s'"
proof -
  from assms(2) obtain stored where st: "map_of (desks s) desk_id = Some stored"
    and r: "DeskRead_init (d_id stored) (dict_update (Val (d_label stored)) (u_label update))
       (dict_update (Val (d_hand_config stored)) (u_hand_config update))
       (d_created_at stored) (d_updated_at stored) = Inr r"
    and s': "s' = s\<lparr>desks := AList.update desk_id r (desks s)\<rparr>"
    by (auto simp: update_desk_def split: option.splits sum.splits)
  have "desk_stamped (clk (ticks s)) (desk_id, stored)"
    using assms(1) st by (auto simp: stamped_def dest: list_all_map_of)
  then have "desk_stamped (clk (ticks s)) (desk_id, r)"
    using DeskRead_init_stamps [OF r] by (simp add: desk_stamped_def)
  then show ?thesis
    using assms(1) unfolding stamped_def s' by (simp add: list_all_update)
qed

lemma replace_desk_stamped:
  assumes "monotone_clock clk" "stamped clk s" "replace_desk clk desk_id desk s = Inr (r, s')"
  shows "stamped clk s'"
proof (cases "map_of (desks s) desk_id")
  case None
  with assms(3) obtain d where "create_desk clk d s = Inr (r, s')"
    by (auto simp: replace_desk_def split: sum.splits)
  then show ?thesis using assms(1,2) by (rule create_desk_stamped [rotated 2])
next
  case (Some stored)
  let ?t = "ticks s"
  from assms(3) Some have r: "DeskRead_init desk_id (Val (d_label desk)) (Val (d_hand_config desk))
       (d_created_at stored) (clk ?t) = Inr r"
    and s': "s' = s\<lparr>ticks := Suc ?t, desks := AList.update desk_id r (desks s)\<rparr>"
    by (auto simp: replace_desk_def utcnow_def split: sum.splits)
  have le: "clk ?t \<le> clk (Suc ?t)"
    using assms(1) by (simp add: monotone_clockD)
  have "desk_stamped (clk ?t) (desk_id, stored)"
    using assms(2) Some by (auto simp: stamped_def dest: list_all_map_of)
  then have new: "desk_stamped (clk (Suc ?t)) (desk_id, r)"
    using DeskRead_init_stamps [OF r] le by (simp add: desk_stamped_def)
  show ?thesis
    using stamped_later [OF assms(2) le] new unfolding stamped_def s'
    by (simp add: list_all_update)
qed

lemma create_classroom_stamped:
  assumes "monotone_clock clk" "stamped clk s" "create_classroom clk classroom s = Inr (r, s')"
  shows "stamped clk s'"
proof -
  let ?t = "ticks s"
  from assms(3) obtain k where
    r: "ClassroomRead_init (c_id classroom) (Val (c_room_no classroom))
          (Val (c_building classroom)) (arg_of_option (c_university classroom))
          (Val (c_desks classroom)) (clk ?t) (clk (Suc ?t)) = Inr r"
    and s': "s' = s\<lparr>ticks := Suc (Suc ?t), classrooms := AList.update k r (classrooms s)\<rparr>"
    by (auto simp: create_classroom_def utcnow_def split: sum.splits)
  have le: "clk ?t \<le> clk (Suc ?t)" "clk ?t \<le> clk (Suc (Suc ?t))"
    using assms(1) by (simp_all add: monotone_clockD)
  have new: "classroom_stamped (clk (Suc (Suc ?t))) (k, r)"
    using ClassroomRead_init_stamps [OF r] le by (simp add: classroom_stamped_def)
  show ?thesis
    using stamped_later [OF assms(2) le(2)] new unfolding stamped_def s'
    by (simp add: list_all_update)
qed

lemma update_classroom_stamped:
  assumes "stamped clk s" "update_classroom classroom_id update s = Inr (r, s')"
  shows "stamped clk s'"
proof -
  from assms(2) obtain stored a b c d where st: "map_of (classrooms s) classroom_id = Some stored"
    and r: "ClassroomRead_init (c_id stored) a b c d (c_created_at stored) (c_updated_at stored) = Inr r"
    and s': "s' = s\<lparr>classrooms := AList.update classroom_id r (classrooms s)\<rparr>"
    by (auto simp: update_classroom_def split: option.splits sum.splits)
  have "classroom_stamped (clk (ticks s)) (classroom_id, stored)"
    using assms(1) st by (auto simp: stamped_def dest: list_all_map_of)
  then have "classroom_stamped (clk (ticks s)) (classroom_id, r)"
    using ClassroomRead_init_stamps [OF r] by (simp add: classroom_stamped_def)
  then show ?thesis
    using assms(1) unfolding stamped_def s' by (simp add: list_all_update)
qed

lemma replace_classroom_stamped:
  assumes "monotone_clock clk" "stamped clk s"
    "replace_classroom clk classroom_id classroom s = Inr (r, s')"
  shows "stamped clk s'"
proof (cases "map_of (classrooms s) classroom_id")
  case None
  with assms(3) show ?thesis
    by (simp add: replace_classroom_def DeskBase_init_def required_str_def)
next
  case (Some stored)
  let ?t = "ticks s"
  from assms(3) Some obtain c where r: "ClassroomRead_init classroom_id (Val (c_room_no classroom))
       (Val (c_building classroom)) (arg_of_option (c_university classroom))
       (Val (c_desks classroom)) (c_created_at stored) (clk ?t) = Inr c"
    and s': "s' = s\<lparr>ticks := Suc ?t, classrooms := AList.update classroom_id c (classrooms s)\<rparr>"
    by (auto simp: replace_classroom_def utcnow_def split: sum.splits)
  have le: "clk ?t \<le> clk (Suc ?t)"
    using assms(1) by (simp add: monotone_clockD)
  have "classroom_stamped (clk ?t) (classroom_id, stored)"
    using assms(2) Some by (auto simp: stamped_def dest: list_all_map_of)
  then have new: "classroom_stamped (clk (Suc ?t)) (classroom_id, c)"
    using ClassroomRead_init_stamps [OF r] le by (simp add: classroom_stamped_def)
  show ?thesis
    using stamped_later [OF assms(2) le] new unfolding stamped_def s'
    by (simp add: list_all_update)
qed

lemma after_stamped:
  assumes "stamped clk s" "\<And>r s'. res = Inr (r, s') \<Longrightarrow> stamped clk s'"
  shows "stamped clk (after s res)"
  using assms by (auto simp: after_def split: sum.splits)

lemma serve_stamped:
  assumes "monotone_clock clk" "stamped clk s"
  shows "stamped clk (serve clk req s)"
proof (cases req)
  case (CreateDesk desk)
  have "stamped clk (after s (create_desk clk desk s))"
    by (rule after_stamped [OF assms(2)], rule create_desk_stamped [OF assms], assumption)
  with CreateDesk show ?thesis by simp
next
  case (UpdateDesk desk_id update)
  have "stamped clk (after s (update_desk desk_id update s))"
    by (rule after_stamped [OF assms(2)], rule update_desk_stamped [OF assms(2)], assumption)
  with UpdateDesk show ?thesis by simp
next
  case (ReplaceDesk desk_id desk)
  have "stamped clk (after s (replace_desk clk desk_id desk s))"
    by (rule after_stamped [OF assms(2)], rule replace_desk_stamped [OF assms], assumption)
  with ReplaceDesk show ?thesis by simp
next
  case (DeleteDesk desk_id)
  then show ?thesis
    using assms(2) by (simp add: delete_desk_def stamped_def list_all_delete)
next
  case (CreateClassroom classroom)
  have "stamped clk (after s (create_classroom clk classroom s))"
    by (rule after_stamped [OF assms(2)], rule create_classroom_stamped [OF assms], assumption)
  with CreateClassroom show ?thesis by simp
next
  case (UpdateClassroom classroom_id update)
  have "stamped clk (after s (update_classroom classroom_id update s))"
    by (rule after_stamped [OF assms(2)], rule update_classroom_stamped [OF assms(2)], assumption)
  with UpdateClassroom show ?thesis by simp
next
  case (ReplaceClassroom classroom_id classroom)
  have "stamped clk (after s (replace_classroom clk classroom_id classroom s))"
    by (rule after_stamped [OF assms(2)], rule replace_classroom_stamped [OF assms], assumption)
  with ReplaceClassroom show ?thesis by simp
next
  case (DeleteClassroom classroom_id)
  then show ?thesis
    using assms(2) by (simp add: delete_classroom_def stamped_def list_all_delete)
qed

lemma serve_all_stamped:
  "monotone_clock clk \<Longrightarrow> stamped clk s \<Longrightarrow> stamped clk (serve_all clk reqs s)"
  by (induction reqs arbitrary: s) (simp_all add: serve_stamped)

lemma stamped_ordered: "stamped clk s \<Longrightarrow> timestamps_ordered s"
  by (auto simp: stamped_def timestamps_ordered_def desk_stamped_def classroom_stamped_def
      list_all_iff)

text \<open>
  Against claim C9 as it is stated: \<^verbatim>\<open>datetime.utcnow()\<close> reads the wall clock, and no
  handler compares or clamps two readings. Under the clock \<open>set_back\<close> a desk is created
  with \<open>created_at = 100\<close>; the clock is then set back, and replacing the desk stores it
  with \<open>updated_at = 52\<close>.
\<close>

theorem updated_at_ge_created_at_counterexample:
  "desks (serve_all set_back [CreateDesk new_12H, ReplaceDesk 1 new_4A] init) =
     [(1, \<lparr>d_id = 1, d_label = ''4A'', d_hand_config = ''Left'',
           d_created_at = 100, d_updated_at = 52\<rparr>)] \<and>
   \<not> timestamps_ordered (serve_all set_back [CreateDesk new_12H, ReplaceDesk 1 new_4A] init)"
  by (simp add: set_back_def init_def new_12H_def new_4A_def after_def create_desk_def
      replace_desk_def model_defs DeskConfig_def timestamps_ordered_def)

text \<open>
  Claim C9, amended. With a clock whose successive readings never decrease, after every
  history of create, partial-update, replace-or-create and delete requests served from
  the empty stores, every record of the Desk Store and of the Classroom Store has
  \<open>updated_at \<ge> created_at\<close>.
\<close>

theorem updated_at_ge_created_at:
  assumes "monotone_clock clk"
  shows "timestamps_ordered (serve_all clk reqs init)"
proof -
  have "stamped clk init" by (simp add: stamped_def init_def)
  with assms have "stamped clk (serve_all clk reqs init)" by (rule serve_all_stamped)
  then show ?thesis by (rule stamped_ordered)
qed

theorem updated_at_ge_created_at_witness:
  "monotone_clock tick10 \<and> timestamps_ordered (serve_all tick10 history init) \<and>
   map fst (desks (serve_all tick10 history init)) = [1] \<and>
   map fst (classrooms (serve_all tick10 history init)) = [7]"
  using updated_at_ge_created_at [of tick10 history]
  by (simp add: monotone_clock_def tick10_def history_def init_def new_12H_def new_4A_def
      new_502_def after_def create_desk_def replace_desk_def create_classroom_def
      update_classroom_def model_defs DeskConfig_def)

section \<open>The order of the desk list\<close>

lemma create_desk_appends:
  assumes "create_desk clk desk s = Inr (r, s')"
  shows "desks s' = desks s @ [(d_id desk, r)]"
    and "d_id r = d_id desk" and "d_label r = d_label desk"
    and "d_hand_config r = d_hand_config desk"
  using assms
  by (auto simp: create_desk_def utcnow_def DeskRead_init_def required_str_def
      required_DeskConfig_def update_absent split: if_splits sum.splits)

lemma create_desks_appends:
  "create_desks clk new s = Inr (rs, s') \<Longrightarrow>
     map snd (desks s') = map snd (desks s) @ rs \<and> map d_id rs = map d_id new \<and>
     map d_label rs = map d_label new \<and> map d_hand_config rs = map d_hand_config new"
proof (induction new arbitrary: s rs)
  case Nil
  then show ?case by simp
next
  case (Cons desk rest)
  from Cons.prems obtain r s1 rs' where
    first: "create_desk clk desk s = Inr (r, s1)" and
    others: "create_desks clk rest s1 = Inr (rs', s')" and rs: "rs = r # rs'"
    by (auto split: sum.splits)
  from Cons.IH [OF others] create_desk_appends [OF first] rs
  show ?case by simp
qed

text \<open>
  Claim C10. After a history of Desk Create requests that all succeeded, starting from
  the empty stores, \<open>list_desks\<close> without filters returns the records those creations
  returned, in the order of the creations; they carry the ids, labels and hand_configs of
  the requests, in that order.
\<close>

theorem list_desks_creation_order:
  assumes "create_desks clk new init = Inr (rs, s)"
  shows "list_desks None None s = rs \<and> map d_id rs = map d_id new \<and>
         map d_label rs = map d_label new \<and> map d_hand_config rs = map d_hand_config new"
  using create_desks_appends [OF assms] by (simp add: list_desks_def init_def)

theorem list_desks_creation_order_witness:
  "create_desks tick10 [new_4A, new_12H] init =
     Inr ([\<lparr>d_id = 2, d_label = ''4A'', d_hand_config = ''Left'',
             d_created_at = 0, d_updated_at = 10\<rparr>,
           \<lparr>d_id = 1, d_label = ''12H'', d_hand_config = ''Right'',
             d_created_at = 20, d_updated_at = 30\<rparr>],
          \<lparr>classrooms = [],
           desks = [(2, \<lparr>d_id = 2, d_label = ''4A'', d_hand_config = ''Left'',
                         d_created_at = 0, d_updated_at = 10\<rparr>),
                    (1, \<lparr>d_id = 1, d_label = ''12H'', d_hand_config = ''Right'',
                         d_created_at = 20, d_updated_at = 30\<rparr>)],
           ticks = 4\<rparr>) \<and>
   list_desks None None
     \<lparr>classrooms = [],
      desks = [(2, \<lparr>d_id = 2, d_label = ''4A'', d_hand_config = ''Left'',
                    d_created_at = 0, d_updated_at = 10\<rparr>),
               (1, \<lparr>d_id = 1, d_label = ''12H'', d_hand_config = ''Right'',
                    d_created_at = 20, d_updated_at = 30\<rparr>)],
      ticks = 4\<rparr> =
     [\<lparr>d_id = 2, d_label = ''4A'', d_hand_config = ''Left'',
       d_created_at = 0, d_updated_at = 10\<rparr>,
      \<lparr>d_id = 1, d_label = ''12H'', d_hand_config = ''Right'',
       d_created_at = 20, d_updated_at = 30\<rparr>]"
proof -
  have run: "create_desks tick10 [new_4A, new_12H] init =
     Inr ([\<lparr>d_id = 2, d_label = ''4A'', d_hand_config = ''Left'',
             d_created_at = 0, d_updated_at = 10\<rparr>,
           \<lparr>d_id = 1, d_label = ''12H'', d_hand_config = ''Right'',
             d_created_at = 20, d_updated_at = 30\<rparr>],
          \<lparr>classrooms = [],
           desks = [(2, \<lparr>d_id = 2, d_label = ''4A'', d_hand_config = ''Left'',
                         d_created_at = 0, d_updated_at = 10\<rparr>),
                    (1, \<lparr>d_id = 1, d_label = ''12H'', d_hand_config = ''Right'',
                         d_created_at = 20, d_updated_at = 30\<rparr>)],
           ticks = 4\<rparr>)"
    by (simp add: create_desk_def model_defs DeskConfig_def example_defs)
  from list_desks_creation_order [OF run] run show ?thesis
    by (simp add: new_4A_def new_12H_def)
qed

section \<open>Partial update\<close>

lemma update_desk_not_found:
  "map_of (desks s) desk_id = None \<Longrightarrow> update_desk desk_id update s = Inl (HTTPException 404)"
  by (simp add: update_desk_def)

lemma update_classroom_not_found:
  "map_of (classrooms s) classroom_id = None \<Longrightarrow>
     update_classroom classroom_id update s = Inl (HTTPException 404)"
  by (simp add: update_classroom_def)

text \<open>
  What a partial update of a desk does when it returns: a field the patch does not have
  keeps the stored value, a field the patch has takes the value of the patch, and the id
  and both timestamps are the stored ones; the clock is not read.
\<close>

lemma update_desk_merges:
  assumes "map_of (desks s) desk_id = Some stored"
    and "update_desk desk_id update s = Inr (r, s')"
  shows "d_id r = d_id stored"
    and "d_label r = (case u_label update of Val v \<Rightarrow> v | _ \<Rightarrow> d_label stored)"
    and "d_hand_config r = (case u_hand_config update of Val v \<Rightarrow> v | _ \<Rightarrow> d_hand_config stored)"
    and "d_created_at r = d_created_at stored"
    and "d_updated_at r = d_updated_at stored"
    and "s' = s\<lparr>desks := AList.update desk_id r (desks s)\<rparr>"
  using assms
  by (auto simp: update_desk_def model_defs split: sum.splits arg.splits if_splits)

lemma update_classroom_keeps_stamps:
  assumes "map_of (classrooms s) classroom_id = Some stored"
    and "update_classroom classroom_id update s = Inr (r, s')"
  shows "c_created_at r = c_created_at stored" and "c_updated_at r = c_updated_at stored"
    and "ticks s' = ticks s"
  using assms ClassroomRead_init_stamps
  by (auto simp: update_classroom_def split: sum.splits)

text \<open>
  Claim C1 has a partial update set \<open>updated_at\<close> to the current time, so that an empty
  patch changes \<open>updated_at\<close> and nothing else. In the code, the empty patch on the desk
  stored under id 1 and on the classroom stored under id 7 returns each record exactly as
  it is stored, \<open>updated_at\<close> included, and leaves the state as it was.
\<close>

theorem update_leaves_updated_at:
  "update_desk 1 empty_patch one_desk = Inr (desk_12H, one_desk) \<and>
   update_classroom 7 empty_classroom_patch one_room = Inr (room_502, one_room)"
  by (simp add: update_desk_def update_classroom_def model_defs example_defs DeskConfig_def)

section \<open>The classroom list\<close>

lemma list_classrooms_no_filters:
  "list_classrooms None None None None None s = Inr (map snd (desks s))"
  by (simp add: filter_defs)

text \<open>
  Claim C2 has the classroom list without filters return the stored classrooms. In the
  code, with one classroom stored and no desk, the handler returns the empty list.
\<close>

theorem list_classrooms_lists_desks:
  "map snd (classrooms one_room) = [room_502] \<and>
   list_classrooms None None None None None one_room = Inr []"
  by (simp add: filter_defs one_room_def)

text \<open>
  Claim C4 has the filter \<open>hand_config = v\<close> return the classrooms with an embedded desk
  of that hand_config. The stored classroom has an embedded desk with hand_config
  \<open>Right\<close>; in the code, the filter \<open>Right\<close> returns the empty list when no desk is
  stored, and raises \<open>AttributeError\<close> when a desk is stored.
\<close>

theorem list_classrooms_hand_config_filter:
  "list_ex (\<lambda>desk. d_hand_config desk = ''Right'') (c_desks room_502) \<and>
   list_classrooms None None None None (Some ''Right'') one_room = Inr [] \<and>
   list_classrooms None None None None (Some ''Right'') room_and_desk = Inl AttributeError"
  by (simp add: filter_defs one_room_def room_and_desk_def room_502_def)

text \<open>
  Claim C6 has no classroom operation read the Desk Store. In the code, two states with
  the same classrooms and different desks give different results of the classroom list:
  it returns the stored desks.
\<close>

theorem list_classrooms_depends_on_desks:
  "classrooms one_room = classrooms room_and_desk \<and>
   list_classrooms None None None None None one_room = Inr [] \<and>
   list_classrooms None None None None None room_and_desk = Inr [desk_12H]"
  by (simp add: filter_defs one_room_def room_and_desk_def)

text \<open>
  What does hold of the two stores: no classroom request changes the dict of desks, and
  no desk request changes the dict of classrooms.
\<close>

lemma classroom_requests_leave_desks:
  "desks (serve clk (CreateClassroom classroom) s) = desks s"
  "desks (serve clk (UpdateClassroom classroom_id update) s) = desks s"
  "desks (serve clk (ReplaceClassroom classroom_id classroom) s) = desks s"
  "desks (serve clk (DeleteClassroom classroom_id) s) = desks s"
  by (auto simp: after_def create_classroom_def update_classroom_def replace_classroom_def
      delete_classroom_def utcnow_def DeskBase_init_def required_str_def
      split: sum.splits option.splits)

lemma desk_requests_leave_classrooms:
  "classrooms (serve clk (CreateDesk desk) s) = classrooms s"
  "classrooms (serve clk (UpdateDesk desk_id update) s) = classrooms s"
  "classrooms (serve clk (ReplaceDesk desk_id desk) s) = classrooms s"
  "classrooms (serve clk (DeleteDesk desk_id) s) = classrooms s"
  by (auto simp: after_def create_desk_def update_desk_def replace_desk_def
      delete_desk_def utcnow_def split: sum.splits option.splits)

section \<open>Classroom ReplaceOrCreate\<close>

lemma replace_classroom_absent:
  "map_of (classrooms s) classroom_id = None \<Longrightarrow>
     replace_classroom clk classroom_id classroom s = Inl ValidationError"
  by (simp add: replace_classroom_def DeskBase_init_def required_str_def)

text \<open>
  Claim C3 has \<open>replace_classroom\<close> on an id that is not stored create a classroom that
  \<open>get_classrooom\<close> then returns. In the code, the request on the empty store raises
  \<open>ValidationError\<close>, and \<open>get_classrooom\<close> with the path id answers 404 afterwards.
\<close>

theorem replace_classroom_missing_id_raises:
  "map_of (classrooms init) 7 = None \<and>
   replace_classroom tick10 7 new_502 init = Inl ValidationError \<and>
   get_classrooom 7 (serve tick10 (ReplaceClassroom 7 new_502) init) = Inl (HTTPException 404)"
  by (simp add: replace_classroom_def DeskBase_init_def required_str_def init_def
      get_classrooom_def after_def)

section \<open>Validation of desk bodies\<close>

text \<open>
  A body whose \<^verbatim>\<open>hand_config\<close> is not \<open>Left\<close> or \<open>Right\<close> does not validate as a
  \<open>DeskCreate\<close>: the routes for creation and replacement answer 422 and call no handler.
\<close>

lemma DeskCreate_validate_rejects:
  "\<not> DeskConfig h \<Longrightarrow> b_hand_config body = Val h \<Longrightarrow>
     DeskCreate_validate uuid4 body = Inl ValidationError"
  by (simp add: DeskCreate_validate_def DeskBase_init_def required_str_def
      required_DeskConfig_def split: arg.splits)

lemma POST_desks_rejects:
  "\<not> DeskConfig h \<Longrightarrow> b_hand_config body = Val h \<Longrightarrow>
     POST_desks uuid4 clk body s = Inl RequestValidationError"
  by (simp add: POST_desks_def DeskCreate_validate_rejects)

lemma PUT_desks_rejects:
  "\<not> DeskConfig h \<Longrightarrow> b_hand_config body = Val h \<Longrightarrow>
     PUT_desks uuid4 clk desk_id body s = Inl RequestValidationError"
  by (simp add: PUT_desks_def DeskCreate_validate_rejects)

text \<open>
  Claim C8 has every body with a hand_config outside \<open>Left\<close> and \<open>Right\<close> rejected
  before a handler is called, on partial update as well. In the code, the body with
  hand_config \<open>Up\<close> validates as a \<open>DeskUpdate\<close>, the handler \<open>update_desk\<close> is called,
  and it is the handler that raises \<open>ValidationError\<close>, when it builds the \<open>DeskRead\<close>.
\<close>

theorem PATCH_desks_invalid_hand_config:
  "DeskUpdate_validate body_Up = Inr \<lparr>u_label = Missing, u_hand_config = Val ''Up''\<rparr> \<and>
   PATCH_desks 1 body_Up one_desk = Inl ValidationError"
  by (simp add: PATCH_desks_def DeskUpdate_validate_def update_desk_def model_defs
      example_defs DeskConfig_def)

section \<open>Create\<close>

lemma optional_str_arg_of_option: "optional_str (arg_of_option v) = v"
  by (cases v) (simp_all add: optional_str_def arg_of_option_def)

text \<open>
  Against claim C5 as it is stated: \<^verbatim>\<open>created_at\<close> and \<^verbatim>\<open>updated_at\<close> each call their own
  \<^verbatim>\<open>default_factory=datetime.utcnow\<close>, so a created record carries two readings of the
  clock and not one. Under the clock \<open>tick10\<close> the created desk and the created
  classroom have \<open>created_at = 0\<close> and \<open>updated_at = 10\<close>.
\<close>

theorem create_counterexample:
  "create_desk tick10 new_12H init = Inr (desk_12H, one_desk) \<and>
   d_created_at desk_12H \<noteq> d_updated_at desk_12H \<and>
   create_classroom tick10 new_502 init =
     Inr (room_502, \<lparr>classrooms = [(7, room_502)], desks = [], ticks = 2\<rparr>) \<and>
   c_created_at room_502 \<noteq> c_updated_at room_502"
  by (simp add: create_classroom_def create_desk_def model_defs example_defs DeskConfig_def)

text \<open>
  Claim C5, amended. For a body that passed validation: \<open>create_desk\<close> fails with
  \<open>HTTPException 400\<close> when the id of the body is stored (the state is as it was);
  otherwise it appends a record with the fields of the body, whose \<open>created_at\<close> and
  \<open>updated_at\<close> are the next two readings of the clock, and returns that record.
  \<open>create_classroom\<close> on an id that is not stored does the same for a classroom. Nothing
  is said of \<open>create_classroom\<close> on an id that is stored.
\<close>

theorem create_amended:
  assumes "DeskConfig (d_hand_config desk)"
    and "list_all (\<lambda>d. DeskConfig (d_hand_config d)) (c_desks classroom)"
  shows "create_desk clk desk s =
           (if map_of (desks s) (d_id desk) \<noteq> None then Inl (HTTPException 400)
            else (let r = \<lparr>d_id = d_id desk, d_label = d_label desk,
                            d_hand_config = d_hand_config desk,
                            d_created_at = clk (ticks s), d_updated_at = clk (Suc (ticks s))\<rparr>
                  in Inr (r, s\<lparr>desks := desks s @ [(d_id desk, r)],
                              ticks := Suc (Suc (ticks s))\<rparr>))) \<and>
         (map_of (classrooms s) (c_id classroom) = None \<longrightarrow>
          create_classroom clk classroom s =
           (let r = \<lparr>c_id = c_id classroom, c_room_no = c_room_no classroom,
                      c_building = c_building classroom,
                      c_university = c_university classroom, c_desks = c_desks classroom,
                      c_created_at = clk (ticks s), c_updated_at = clk (Suc (ticks s))\<rparr>
            in Inr (r, s\<lparr>classrooms := classrooms s @ [(c_id classroom, r)],
                        ticks := Suc (Suc (ticks s))\<rparr>)))"
proof (intro conjI impI)
  show "create_desk clk desk s =
           (if map_of (desks s) (d_id desk) \<noteq> None then Inl (HTTPException 400)
            else (let r = \<lparr>d_id = d_id desk, d_label = d_label desk,
                            d_hand_config = d_hand_config desk,
                            d_created_at = clk (ticks s), d_updated_at = clk (Suc (ticks s))\<rparr>
                  in Inr (r, s\<lparr>desks := desks s @ [(d_id desk, r)],
                              ticks := Suc (Suc (ticks s))\<rparr>)))"
  proof (cases "map_of (desks s) (d_id desk)")
    case None
    then show ?thesis
      using create_desk_absent [OF assms(1) None] by (simp add: Let_def)
  next
    case (Some r)
    then show ?thesis by (simp add: create_desk_def)
  qed
next
  assume absent: "map_of (classrooms s) (c_id classroom) = None"
  have "DeskBase_list (c_desks classroom) = Inr (c_desks classroom)"
    using assms(2) by (rule DeskBase_list_valid)
  with absent show "create_classroom clk classroom s =
           (let r = \<lparr>c_id = c_id classroom, c_room_no = c_room_no classroom,
                      c_building = c_building classroom,
                      c_university = c_university classroom, c_desks = c_desks classroom,
                      c_created_at = clk (ticks s), c_updated_at = clk (Suc (ticks s))\<rparr>
            in Inr (r, s\<lparr>classrooms := classrooms s @ [(c_id classroom, r)],
                        ticks := Suc (Suc (ticks s))\<rparr>))"
    by (simp add: create_classroom_def ClassroomRead_init_def required_str_def desks_field_def
        utcnow_def optional_str_arg_of_option update_absent Let_def)
qed

theorem create_amended_witness:
  "DeskConfig (d_hand_config new_12H) \<and>
   list_all (\<lambda>d. DeskConfig (d_hand_config d)) (c_desks new_502) \<and>
   map_of (classrooms init) (c_id new_502) = None \<and>
   create_desk tick10 new_12H one_desk = Inl (HTTPException 400) \<and>
   create_desk tick10 new_12H init = Inr (desk_12H, one_desk) \<and>
   create_classroom tick10 new_502 init =
     Inr (room_502, \<lparr>classrooms = [(7, room_502)], desks = [], ticks = 2\<rparr>)"
  using create_amended [of new_12H new_502 tick10 one_desk]
    create_amended [of new_12H new_502 tick10 init]
  by (simp add: DeskConfig_def example_defs Let_def)

text \<open>
  On an id that is stored \<open>create_classroom\<close> has no membership test, unlike
  \<open>create_desk\<close>: the request succeeds and the stored record is replaced, its
  \<open>created_at\<close> with it.
\<close>

lemma create_classroom_stored_id:
  "map_of (classrooms one_room) (c_id new_502) = Some room_502 \<and>
   create_classroom tick10 new_502 one_room =
     Inr (\<lparr>c_id = 7, c_room_no = ''502'', c_building = ''NWC'',
           c_university = Some ''Columbia'',
           c_desks = [\<lparr>d_id = 1, d_label = ''12H'', d_hand_config = ''Right''\<rparr>],
           c_created_at = 20, c_updated_at = 30\<rparr>,
          \<lparr>classrooms =
             [(7, \<lparr>c_id = 7, c_room_no = ''502'', c_building = ''NWC'',
                   c_university = Some ''Columbia'',
                   c_desks = [\<lparr>d_id = 1, d_label = ''12H'', d_hand_config = ''Right''\<rparr>],
                   c_created_at = 20, c_updated_at = 30\<rparr>)],
           desks = [], ticks = 4\<rparr>)"
  by (simp add: create_classroom_def model_defs example_defs DeskConfig_def)

end
